theory Spec2Isabelle
  imports Main "HOL-Library.Log_Nat" "HOL-Library.AList" "HOL-Library.Sublist"
begin

section \<open>Traffic-accident analysis script (TASK4.py)\<close>

text \<open>
  The script is one straight-line batch: it loads at most 100000 records of a CSV file,
  prunes sparse columns, coerces three columns to numbers, and then runs eleven plotting
  blocks, one of which (time of day) also parses \<open>Start_Time\<close> and adds an \<open>Hours\<close> column.
  The embedding follows the script statement by statement.  An exception is a value of
  type \<open>error\<close>; the figures handed to \<open>plt.show\<close> are collected in order in the state.
\<close>

subsection \<open>Python floats\<close>

text \<open>
  \<open>len(df) * (1 - missing_threshold)\<close> is computed in binary64.  A float is modelled by the
  rational it denotes; \<open>fl\<close> rounds a rational to the nearest binary64 value, ties to even
  (53-bit significand).  Overflow and subnormals are left out: every value the script
  computes here lies between 0 and 100000.
\<close>

definition expo :: "rat \<Rightarrow> int" where
  \<comment> \<open>the binary exponent of a positive rational: \<open>2 powi expo x \<le> x < 2 powi (expo x + 1)\<close>\<close>
  "expo x = (if 1 \<le> x then bitlen \<lfloor>x\<rfloor> - 1 else - bitlen (\<lceil>1 / x\<rceil> - 1))"

definition rnd_even :: "rat \<Rightarrow> int" where
  "rnd_even y =
     (let f = \<lfloor>y\<rfloor>; d = y - of_int f
      in if d < 1 / 2 then f else if 1 / 2 < d then f + 1 else if even f then f else f + 1)"

definition fl :: "rat \<Rightarrow> rat" where
  "fl x = (if x = 0 then 0
           else let u = 2 powi (expo \<bar>x\<bar> - 52) in of_int (rnd_even (x / u)) * u)"

definition missing_threshold :: rat where
  \<comment> \<open>line 22: the literal \<open>0.3\<close>\<close>
  "missing_threshold = fl (3 / 10)"

definition thresh :: "nat \<Rightarrow> rat" where
  \<comment> \<open>line 23: \<open>len(df) * (1 - missing_threshold)\<close>, the integer converted to float first\<close>
  "thresh n = fl (fl (of_nat n) * fl (1 - missing_threshold))"

subsection \<open>Data frames\<close>

text \<open>
  A cell is missing (\<open>NaN\<close>, \<open>NaT\<close>), a number, a string, a boolean or a timestamp
  (nanoseconds since the epoch).  The script only ever asks whether a dtype is a number,
  an object or a datetime, so \<open>int64\<close> and \<open>float64\<close> are one dtype here.
\<close>

datatype cell = NA | Num rat | Str string | Bl bool | Ts int

datatype dtype = Numeric | Boolean | Object | Datetime

record column =
  dtype :: dtype
  cells :: "cell list"

record dataframe =
  nrows :: nat
  cols :: "(string \<times> column) list"

datatype error = KeyError string | ValueError string | AttributeError string | IndexError

text \<open>
  The parsers and the random generator of pandas and numpy are not part of the repository;
  they are parameters of the model.
\<close>

record library =
  csv_number :: "string \<Rightarrow> rat option"  \<comment> \<open>the CSV reader's number conversion\<close>
  to_number :: "string \<Rightarrow> rat option"  \<comment> \<open>the parser of \<open>pd.to_numeric\<close>\<close>
  to_timestamp :: "cell \<Rightarrow> int option"  \<comment> \<open>the conversion of \<open>pd.to_datetime\<close>\<close>
  permutation :: "nat \<Rightarrow> nat \<Rightarrow> nat list"
    \<comment> \<open>\<open>RandomState(seed).permutation(n)\<close>\<close>

definition has_col :: "dataframe \<Rightarrow> string \<Rightarrow> bool" where
  \<comment> \<open>\<open>name in df.columns\<close>\<close>
  "has_col d name = (name \<in> set (map fst (cols d)))"

definition get_col :: "dataframe \<Rightarrow> string \<Rightarrow> error + column" where
  \<comment> \<open>\<open>df[name]\<close>\<close>
  "get_col d name = (case map_of (cols d) name of None \<Rightarrow> Inl (KeyError name) | Some c \<Rightarrow> Inr c)"

definition set_col :: "dataframe \<Rightarrow> string \<Rightarrow> column \<Rightarrow> dataframe" where
  \<comment> \<open>\<open>df[name] = c\<close>: replaces the column in place, or appends a new one\<close>
  "set_col d name c = d\<lparr>cols := AList.update name c (cols d)\<rparr>"

fun select :: "string list \<Rightarrow> dataframe \<Rightarrow> error + (string \<times> column) list" where
  "select [] d = Inr []"
| "select (name # names) d =
     (case get_col d name of
        Inl e \<Rightarrow> Inl e
      | Inr c \<Rightarrow> (case select names d of Inl e \<Rightarrow> Inl e | Inr cs \<Rightarrow> Inr ((name, c) # cs)))"

definition getitem :: "dataframe \<Rightarrow> string list \<Rightarrow> error + dataframe" where
  \<comment> \<open>\<open>df[names]\<close>, a \<open>KeyError\<close> when a name is not a column\<close>
  "getitem d names =
     (case select names d of Inl e \<Rightarrow> Inl e | Inr cs \<Rightarrow> Inr \<lparr>nrows = nrows d, cols = cs\<rparr>)"

fun seaborn_vars :: "string list \<Rightarrow> dataframe \<Rightarrow> error + (string \<times> column) list" where
  "seaborn_vars [] d = Inr []"
| "seaborn_vars (name # names) d =
     (case map_of (cols d) name of
        None \<Rightarrow> Inl (ValueError name)
      | Some c \<Rightarrow>
          (case seaborn_vars names d of Inl e \<Rightarrow> Inl e | Inr cs \<Rightarrow> Inr ((name, c) # cs)))"

definition seaborn_data :: "dataframe \<Rightarrow> string list \<Rightarrow> error + dataframe" where
  \<comment> \<open>seaborn's \<open>data=df\<close> with variables given by name: a name that is not a column is a
      \<open>ValueError\<close> (could not interpret value)\<close>
  "seaborn_data d names =
     (case seaborn_vars names d of
        Inl e \<Rightarrow> Inl e
      | Inr cs \<Rightarrow> Inr \<lparr>nrows = nrows d, cols = cs\<rparr>)"

definition count_notna :: "column \<Rightarrow> nat" where
  "count_notna c = length (filter (\<lambda>v. v \<noteq> NA) (cells c))"

definition count_na :: "column \<Rightarrow> nat" where
  "count_na c = length (filter (\<lambda>v. v = NA) (cells c))"

definition dropna_thresh :: "rat \<Rightarrow> dataframe \<Rightarrow> dataframe" where
  \<comment> \<open>\<open>df.dropna(thresh=t, axis=1)\<close>: keeps the columns with \<open>count >= t\<close>\<close>
  "dropna_thresh t d = d\<lparr>cols := filter (\<lambda>(name, c). t \<le> of_nat (count_notna c)) (cols d)\<rparr>"

definition select_dtypes :: "dtype \<Rightarrow> dataframe \<Rightarrow> dataframe" where
  "select_dtypes t d = d\<lparr>cols := filter (\<lambda>(name, c). dtype c = t) (cols d)\<rparr>"

definition drop_cols :: "string list \<Rightarrow> dataframe \<Rightarrow> dataframe" where
  \<comment> \<open>\<open>df.drop(names, axis=1, errors='ignore')\<close>\<close>
  "drop_cols names d = d\<lparr>cols := filter (\<lambda>(name, c). name \<notin> set names) (cols d)\<rparr>"

subsection \<open>Loading\<close>

text \<open>
  The file is given as the reader's tokenizer sees it: a number of records and, for each
  column label of the header, the text of its field in each record.
\<close>

record csv_file =
  n_records :: nat
  csv_columns :: "(string \<times> (nat \<Rightarrow> string)) list"

definition na_values :: "string list" where
  "na_values = ['''', ''#N/A'', ''#N/A N/A'', ''#NA'', ''-1.#IND'', ''-1.#QNAN'', ''-NaN'',
     ''-nan'', ''1.#IND'', ''1.#QNAN'', ''<NA>'', ''N/A'', ''NA'', ''NULL'', ''NaN'', ''None'',
     ''n/a'', ''nan'', ''null'']"

definition true_values :: "string list" where
  "true_values = [''True'', ''TRUE'', ''true'']"

definition false_values :: "string list" where
  "false_values = [''False'', ''FALSE'', ''false'']"

definition is_na :: "string \<Rightarrow> bool" where
  "is_na s = (s \<in> set na_values)"

definition infer_column :: "library \<Rightarrow> string list \<Rightarrow> column" where
  \<comment> \<open>the reader's dtype inference: numbers, then booleans, then strings\<close>
  "infer_column L raw =
     (if raw = [] then \<lparr>dtype = Object, cells = []\<rparr>
      else if list_all (\<lambda>s. is_na s \<or> csv_number L s \<noteq> None) raw then
        \<lparr>dtype = Numeric,
         cells = map (\<lambda>s. if is_na s then NA
                           else case csv_number L s of Some x \<Rightarrow> Num x | None \<Rightarrow> NA) raw\<rparr>
      else if list_all (\<lambda>s. is_na s \<or> s \<in> set true_values \<or> s \<in> set false_values) raw then
        \<lparr>dtype = (if list_ex is_na raw then Object else Boolean),
         cells = map (\<lambda>s. if is_na s then NA else Bl (s \<in> set true_values)) raw\<rparr>
      else \<lparr>dtype = Object, cells = map (\<lambda>s. if is_na s then NA else Str s) raw\<rparr>)"

definition read_csv :: "library \<Rightarrow> csv_file \<Rightarrow> nat \<Rightarrow> dataframe" where
  \<comment> \<open>\<open>pd.read_csv(path, nrows=n)\<close>\<close>
  "read_csv L f n =
     (let m = min (n_records f) n
      in \<lparr>nrows = m,
          cols = map (\<lambda>(name, field). (name, infer_column L (map field [0..<m]))) (csv_columns f)\<rparr>)"

subsection \<open>Coercions\<close>

fun coerce_number :: "library \<Rightarrow> cell \<Rightarrow> cell" where
  "coerce_number L (Str s) = (case to_number L s of Some x \<Rightarrow> Num x | None \<Rightarrow> NA)"
| "coerce_number L (Bl b) = Num (if b then 1 else 0)"
| "coerce_number L (Ts t) = Num (of_int t)"
| "coerce_number L (Num x) = Num x"
| "coerce_number L NA = NA"

definition to_numeric :: "library \<Rightarrow> column \<Rightarrow> column" where
  \<comment> \<open>\<open>pd.to_numeric(c, errors='coerce')\<close>: a numeric or boolean column is returned as it is\<close>
  "to_numeric L c =
     (if dtype c = Numeric \<or> dtype c = Boolean then c
      else \<lparr>dtype = Numeric, cells = map (coerce_number L) (cells c)\<rparr>)"

fun coerce_timestamp :: "library \<Rightarrow> cell \<Rightarrow> cell" where
  "coerce_timestamp L NA = NA"
| "coerce_timestamp L (Ts t) = Ts t"
| "coerce_timestamp L v = (case to_timestamp L v of Some t \<Rightarrow> Ts t | None \<Rightarrow> NA)"

definition to_datetime :: "library \<Rightarrow> column \<Rightarrow> column" where
  \<comment> \<open>\<open>pd.to_datetime(c, errors='coerce')\<close>\<close>
  "to_datetime L c = \<lparr>dtype = Datetime, cells = map (coerce_timestamp L) (cells c)\<rparr>"

definition hour :: "int \<Rightarrow> int" where
  "hour t = (t div 3600000000000) mod 24"

fun hour_cell :: "cell \<Rightarrow> cell" where
  "hour_cell (Ts t) = Num (of_int (hour t))"
| "hour_cell v = NA"

definition dt_hour :: "column \<Rightarrow> error + column" where
  \<comment> \<open>\<open>c.dt.hour\<close>; the \<open>.dt\<close> accessor exists on datetime columns only\<close>
  "dt_hour c =
     (if dtype c = Datetime then Inr \<lparr>dtype = Numeric, cells = map hour_cell (cells c)\<rparr>
      else Inl (AttributeError ''dt''))"

subsection \<open>Sampling\<close>

fun take_rows :: "nat list \<Rightarrow> dataframe \<Rightarrow> error + dataframe" where
  "take_rows idx d =
     (if list_all (\<lambda>i. i < nrows d) idx then
        Inr \<lparr>nrows = length idx,
             cols = map (\<lambda>(name, c). (name, c\<lparr>cells := map (\<lambda>i. cells c ! i) idx\<rparr>)) (cols d)\<rparr>
      else Inl IndexError)"

definition df_sample :: "library \<Rightarrow> nat \<Rightarrow> nat \<Rightarrow> nat option \<Rightarrow> dataframe \<Rightarrow> error + dataframe" where
  \<comment> \<open>\<open>df.sample(n=n, random_state=r)\<close>, without replacement: the first \<open>n\<close> entries of a
      permutation of the row positions.  With \<open>random_state=None\<close> the generator is seeded
      from the environment's entropy.\<close>
  "df_sample L entropy n random_state d =
     (if nrows d < n then Inl (ValueError ''sample'')
      else take_rows
             (take n (permutation L (case random_state of None \<Rightarrow> entropy | Some r \<Rightarrow> r) (nrows d)))
             d)"

subsection \<open>The script\<close>

datatype plot_kind =
  Heatmap | CityBar | SeverityPie | RoadPie | WeatherBar | HoursHist | LocationScatter
| TempBox | WindViolin | TempDensity | Pairplot

text \<open>
  A figure is recorded when \<open>plt.show\<close> is reached, with the data handed to the plotting
  call.  What is drawn from that data (counts, means, labels, colours) is not modelled.
\<close>

datatype figure = Fig plot_kind dataframe

fun fig_kind :: "figure \<Rightarrow> plot_kind" where
  "fig_kind (Fig k d) = k"

fun fig_data :: "figure \<Rightarrow> dataframe" where
  "fig_data (Fig k d) = d"

record state =
  df :: dataframe
  df_cat :: dataframe
  df_num :: dataframe
  shown :: "figure list"

definition plt_show :: "plot_kind \<Rightarrow> dataframe \<Rightarrow> state \<Rightarrow> state" where
  "plt_show k d s = s\<lparr>shown := shown s @ [Fig k d]\<rparr>"

definition plot_pandas :: "plot_kind \<Rightarrow> string list \<Rightarrow> state \<Rightarrow> error + state" where
  \<comment> \<open>a figure drawn from \<open>df[name]\<close>\<close>
  "plot_pandas k names s =
     (case getitem (df s) names of Inl e \<Rightarrow> Inl e | Inr d \<Rightarrow> Inr (plt_show k d s))"

definition plot_seaborn :: "plot_kind \<Rightarrow> string list \<Rightarrow> state \<Rightarrow> error + state" where
  \<comment> \<open>a figure drawn by seaborn with \<open>data=df\<close> and the variables given by name\<close>
  "plot_seaborn k names s =
     (case seaborn_data (df s) names of Inl e \<Rightarrow> Inl e | Inr d \<Rightarrow> Inr (plt_show k d s))"

definition load :: "library \<Rightarrow> csv_file \<Rightarrow> dataframe" where
  \<comment> \<open>line 12\<close>
  "load L f = read_csv L f 100000"

definition prune :: "dataframe \<Rightarrow> dataframe" where
  \<comment> \<open>line 23\<close>
  "prune d = dropna_thresh (thresh (nrows d)) d"

definition init :: "library \<Rightarrow> csv_file \<Rightarrow> state" where
  \<comment> \<open>lines 12 to 32\<close>
  "init L f =
     (let d = prune (load L f);
          cat = drop_cols [''ID''] (select_dtypes Object d);
          num = select_dtypes Numeric d
      in \<lparr>df = drop_cols [''Airport_Code''] d,
          df_cat = drop_cols [''Description'', ''Zipcode'', ''Weather_Timestamp''] cat,
          df_num = num,
          shown = []\<rparr>)"

definition coerce_step :: "library \<Rightarrow> string \<Rightarrow> state \<Rightarrow> error + state" where
  \<comment> \<open>lines 35 to 37: \<open>df[name] = pd.to_numeric(df[name], errors='coerce')\<close>\<close>
  "coerce_step L name s =
     (case get_col (df s) name of
        Inl e \<Rightarrow> Inl e
      | Inr c \<Rightarrow> Inr (s\<lparr>df := set_col (df s) name (to_numeric L c)\<rparr>))"

definition heatmap_step :: "state \<Rightarrow> error + state" where
  \<comment> \<open>lines 44 to 48\<close>
  "heatmap_step s = Inr (plt_show Heatmap (df_num s) s)"

definition city_step :: "state \<Rightarrow> error + state" where
  \<comment> \<open>lines 51 to 58\<close>
  "city_step s = (if has_col (df s) ''City'' then plot_pandas CityBar [''City''] s else Inr s)"

definition severity_step :: "state \<Rightarrow> error + state" where
  \<comment> \<open>lines 61 to 66\<close>
  "severity_step s =
     (if has_col (df s) ''Severity'' then plot_pandas SeverityPie [''Severity''] s else Inr s)"

definition road_step :: "state \<Rightarrow> error + state" where
  \<comment> \<open>lines 69 to 74\<close>
  "road_step s =
     (if has_col (df s) ''Road_Condition'' then plot_pandas RoadPie [''Road_Condition''] s
      else Inr s)"

definition weather_step :: "state \<Rightarrow> error + state" where
  \<comment> \<open>lines 77 to 83\<close>
  "weather_step s =
     (if has_col (df s) ''Weather_Condition''
      then plot_pandas WeatherBar [''Weather_Condition''] s
      else Inr s)"

definition hours_step :: "library \<Rightarrow> state \<Rightarrow> error + state" where
  \<comment> \<open>lines 86 to 93\<close>
  "hours_step L s =
     (case get_col (df s) ''Start_Time'' of
        Inl e \<Rightarrow> Inl e
      | Inr c \<Rightarrow>
          (let d1 = set_col (df s) ''Start_Time'' (to_datetime L c)
           in case get_col d1 ''Start_Time'' of
                Inl e \<Rightarrow> Inl e
              | Inr c1 \<Rightarrow>
                  (case dt_hour c1 of
                     Inl e \<Rightarrow> Inl e
                   | Inr h \<Rightarrow> plot_pandas HoursHist [''Hours''] (s\<lparr>df := set_col d1 ''Hours'' h\<rparr>))))"

definition scatter_step :: "state \<Rightarrow> error + state" where
  \<comment> \<open>lines 96 to 108; the loop over \<open>df['State'].unique()\<close> only writes labels into the figure\<close>
  "scatter_step s =
     (case seaborn_data (df s) [''Start_Lng'', ''Start_Lat'', ''State''] of
        Inl e \<Rightarrow> Inl e
      | Inr d \<Rightarrow>
          (case get_col (df s) ''State'' of
             Inl e \<Rightarrow> Inl e
           | Inr c \<Rightarrow> Inr (plt_show LocationScatter d s)))"

definition box_step :: "state \<Rightarrow> error + state" where
  \<comment> \<open>lines 111 to 117\<close>
  "box_step s =
     (if has_col (df s) ''Severity'' \<and> has_col (df s) ''Temperature(F)''
      then plot_seaborn TempBox [''Severity'', ''Temperature(F)''] s
      else Inr s)"

definition violin_step :: "state \<Rightarrow> error + state" where
  \<comment> \<open>lines 120 to 126\<close>
  "violin_step s =
     (if has_col (df s) ''Wind_Speed(mph)'' \<and> has_col (df s) ''Severity''
      then plot_seaborn WindViolin [''Severity'', ''Wind_Speed(mph)''] s
      else Inr s)"

definition series_dropna :: "column \<Rightarrow> dataframe" where
  \<comment> \<open>\<open>df[name].dropna()\<close> as a one-column frame\<close>
  "series_dropna c =
     \<lparr>nrows = count_notna c,
      cols = [(''Temperature(F)'', c\<lparr>cells := filter (\<lambda>v. v \<noteq> NA) (cells c)\<rparr>)]\<rparr>"

definition density_step :: "state \<Rightarrow> error + state" where
  \<comment> \<open>lines 129 to 134\<close>
  "density_step s =
     (case get_col (df s) ''Temperature(F)'' of
        Inl e \<Rightarrow> Inl e
      | Inr c \<Rightarrow> Inr (plt_show TempDensity (series_dropna c) s))"

definition sample_size :: "dataframe \<Rightarrow> nat" where
  \<comment> \<open>line 137\<close>
  "sample_size d = min (nrows d) 5000"

definition pairplot_step :: "library \<Rightarrow> nat \<Rightarrow> state \<Rightarrow> error + state" where
  \<comment> \<open>lines 139 to 150\<close>
  "pairplot_step L entropy s =
     (case df_sample L entropy (sample_size (df s)) (Some 42) (df s) of
        Inl e \<Rightarrow> Inl e
      | Inr sampled \<Rightarrow>
          (case getitem sampled (map fst (cols (df_num s))) of
             Inl e \<Rightarrow> Inl e
           | Inr d \<Rightarrow> Inr (plt_show Pairplot d s)))"

definition clean_steps :: "library \<Rightarrow> (state \<Rightarrow> error + state) list" where
  "clean_steps L =
     [coerce_step L ''Start_Lng'', coerce_step L ''Start_Lat'', coerce_step L ''Temperature(F)'']"

definition early_plots :: "library \<Rightarrow> (state \<Rightarrow> error + state) list" where
  "early_plots L =
     [heatmap_step, city_step, severity_step, road_step, weather_step, hours_step L]"

definition late_plots :: "library \<Rightarrow> nat \<Rightarrow> (state \<Rightarrow> error + state) list" where
  "late_plots L entropy =
     [scatter_step, box_step, violin_step, density_step, pairplot_step L entropy]"

definition plot_steps :: "library \<Rightarrow> nat \<Rightarrow> (state \<Rightarrow> error + state) list" where
  "plot_steps L entropy = early_plots L @ late_plots L entropy"

text \<open>Statements run in order; the first exception ends the run and leaves the state as it was.\<close>

fun exec :: "(state \<Rightarrow> error + state) list \<Rightarrow> state \<Rightarrow> state \<times> error option" where
  "exec [] s = (s, None)"
| "exec (step # steps) s = (case step s of Inl e \<Rightarrow> (s, Some e) | Inr s' \<Rightarrow> exec steps s')"

definition run :: "library \<Rightarrow> nat \<Rightarrow> csv_file \<Rightarrow> state \<times> error option" where
  "run L entropy f = exec (clean_steps L @ plot_steps L entropy) (init L f)"

definition plot_order :: "plot_kind list" where
  "plot_order = [Heatmap, CityBar, SeverityPie, RoadPie, WeatherBar, HoursHist, LocationScatter,
     TempBox, WindViolin, TempDensity, Pairplot]"

definition figures :: "state \<times> error option \<Rightarrow> plot_kind list" where
  "figures r = map fig_kind (shown (fst r))"

subsection \<open>Sample inputs\<close>

text \<open>
  A small instance of the library, used to run the script on concrete files: numbers are
  unsigned decimal numerals, a timestamp is written as the number of hours since the
  epoch, and the permutation reverses the positions.
\<close>

fun digits :: "string \<Rightarrow> nat \<Rightarrow> nat option" where
  "digits [] acc = Some acc"
| "digits (c # cs) acc =
     (if 48 \<le> (of_char c :: nat) \<and> (of_char c :: nat) \<le> 57
      then digits cs (10 * acc + (of_char c - 48))
      else None)"

definition decimal :: "string \<Rightarrow> rat option" where
  "decimal s = (if s = [] then None else map_option of_nat (digits s 0))"

fun hours_stamp :: "cell \<Rightarrow> int option" where
  "hours_stamp (Str s) =
     (if s = [] then None else map_option (\<lambda>n. int n * 3600000000000) (digits s 0))"
| "hours_stamp v = None"

definition lib0 :: library where
  "lib0 = \<lparr>csv_number = decimal, to_number = decimal, to_timestamp = hours_stamp,
            permutation = (\<lambda>seed n. rev [0..<n])\<rparr>"

definition text_col :: "string list \<Rightarrow> nat \<Rightarrow> string" where
  "text_col xs i = (if i < length xs then xs ! i else [])"

definition accidents :: "(string \<times> (nat \<Rightarrow> string)) list" where
  "accidents =
     [(''ID'', text_col [''A1'', ''A2'', ''A3'']),
      (''Severity'', text_col [''2'', ''3'', ''2'']),
      (''Start_Time'', text_col [''5'', ''soon'', ''47'']),
      (''Start_Lat'', text_col [''39'', ''40'', ''41'']),
      (''Start_Lng'', text_col [''84'', ''82'', ''81'']),
      (''City'', text_col [''Dayton'', ''Reynoldsburg'', ''Dayton'']),
      (''State'', text_col [''OH'', ''OH'', ''OH'']),
      (''Temperature(F)'', text_col [''36'', ''cold'', ''37'']),
      (''Wind_Speed(mph)'', text_col [''3'', ''5'', ''4'']),
      (''Weather_Condition'', text_col [''Rain'', ''Snow'', ''Rain'']),
      (''Road_Condition'', text_col [''Wet'', ''Icy'', ''Wet'']),
      (''End_Lat'', text_col [[], [], ''41''])]"

definition file_full :: csv_file where
  "file_full = \<lparr>n_records = 3, csv_columns = accidents\<rparr>"

definition file_no_city :: csv_file where
  "file_no_city =
     \<lparr>n_records = 3, csv_columns = filter (\<lambda>(name, t). name \<noteq> ''City'') accidents\<rparr>"

definition file_no_state :: csv_file where
  "file_no_state =
     \<lparr>n_records = 3, csv_columns = filter (\<lambda>(name, t). name \<noteq> ''State'') accidents\<rparr>"

definition file_sparse :: csv_file where
  \<comment> \<open>ten records; \<open>kept\<close> misses exactly three values, \<open>dropped\<close> misses four\<close>
  "file_sparse =
     \<lparr>n_records = 10,
      csv_columns =
        [(''kept'', text_col [''1'', ''2'', [], ''4'', ''5'', [], ''7'', ''8'', [], ''10'']),
         (''dropped'', text_col [''1'', [], [], ''4'', ''5'', [], ''7'', ''8'', [], ''10''])]\<rparr>"

section \<open>Properties\<close>

subsection \<open>Rounding\<close>

text \<open>The exponent is a lower bound, which is all the threshold needs.\<close>

lemma keep_const: "fl (1 - missing_threshold) = 6305039478318694 / 2 ^ 53"
  by code_simp

lemma expo_lower:
  assumes "0 < x"
  shows "2 powi (expo x) \<le> x"
proof (cases "1 \<le> x")
  case True
  then have fpos: "0 < \<lfloor>x\<rfloor>" by simp
  have b1: "1 \<le> bitlen \<lfloor>x\<rfloor>" using fpos by (simp add: bitlen_alt_def)
  have "(2::int) ^ nat (bitlen \<lfloor>x\<rfloor> - 1) \<le> \<lfloor>x\<rfloor>"
    using bitlen_bounds [OF fpos] by simp
  then have "(of_int ((2::int) ^ nat (bitlen \<lfloor>x\<rfloor> - 1)) :: rat) \<le> of_int \<lfloor>x\<rfloor>"
    by (simp only: of_int_le_iff)
  then have "(2::rat) ^ nat (bitlen \<lfloor>x\<rfloor> - 1) \<le> x"
    by (simp add: order_trans [OF _ of_int_floor_le])
  then show ?thesis using True b1 by (simp add: expo_def power_int_def)
next
  case False
  define m where "m = \<lceil>1 / x\<rceil> - 1"
  have "1 < 1 / x" using False assms by simp
  then have "1 < \<lceil>1 / x\<rceil>" by (simp add: less_ceiling_iff)
  then have mpos: "0 < m" by (simp add: m_def)
  have "m < 2 ^ nat (bitlen m)" using bitlen_bounds [OF mpos] by simp
  then have "\<lceil>1 / x\<rceil> \<le> 2 ^ nat (bitlen m)" by (simp add: m_def)
  then have "(of_int \<lceil>1 / x\<rceil> :: rat) \<le> of_int (2 ^ nat (bitlen m))"
    by (simp only: of_int_le_iff)
  then have "1 / x \<le> of_int (2 ^ nat (bitlen m))"
    by (rule order_trans [OF le_of_int_ceiling])
  then have "1 / x \<le> 2 ^ nat (bitlen m)" by simp
  then have "1 \<le> 2 ^ nat (bitlen m) * x"
    using assms by (simp add: field_simps)
  then have "1 / 2 ^ nat (bitlen m) \<le> x"
    by (simp add: field_simps)
  moreover have "(2::rat) powi (- bitlen m) = 1 / 2 ^ nat (bitlen m)"
    by (simp add: power_int_minus_divide power_int_nonneg_exp bitlen_nonneg)
  ultimately show ?thesis using False
    by (simp add: expo_def m_def [symmetric])
qed

lemma expo_less:
  assumes "0 < x" and "x < 2 powi k"
  shows "expo x < k"
proof (rule ccontr)
  assume "\<not> expo x < k"
  then have "k \<le> expo x" by simp
  then have "(2::rat) powi k \<le> 2 powi (expo x)"
    by (simp add: power_int_increasing)
  with expo_lower [OF assms(1)] assms(2) show False by simp
qed

lemma rnd_even_ge: "of_int k \<le> y \<Longrightarrow> k \<le> rnd_even y"
proof -
  assume "of_int k \<le> y"
  then have "k \<le> \<lfloor>y\<rfloor>" by (simp add: le_floor_iff)
  then show ?thesis by (simp add: rnd_even_def Let_def)
qed

lemma rnd_even_le: "y \<le> of_int k \<Longrightarrow> rnd_even y \<le> k"
proof -
  assume h: "y \<le> of_int k"
  show ?thesis
  proof (cases "y = of_int k")
    case True
    then show ?thesis by (simp add: rnd_even_def Let_def)
  next
    case False
    with h have "y < of_int k" by simp
    then have "\<lfloor>y\<rfloor> < k" by (simp add: floor_less_iff)
    then show ?thesis by (simp add: rnd_even_def Let_def)
  qed
qed

lemma grid16:
  assumes "0 < x" and "x < 2 powi 49"
  shows "\<exists>N::int. 0 < N \<and> (1::rat) / 16 = of_int N * 2 powi (expo x - 52)"
proof -
  have e: "expo x < 49" using expo_less [OF assms] .
  define j where "j = nat (48 - expo x)"
  have je: "int j = 48 - expo x" using e by (simp add: j_def)
  have "expo x - 52 = - 4 - int j" using je by simp
  then have "(2::rat) powi (expo x - 52) = 2 powi (- 4) / 2 powi (int j)"
    by (simp add: power_int_diff)
  also have "\<dots> = (1 / 16) / 2 ^ j" by (simp add: power_int_minus_divide)
  finally have u: "(2::rat) powi (expo x - 52) = (1 / 16) / 2 ^ j" .
  have "(1::rat) / 16 = of_int (2 ^ j) * 2 powi (expo x - 52)"
    by (simp add: u)
  moreover have "(0::int) < 2 ^ j" by simp
  ultimately show ?thesis by blast
qed

lemma fl_ge:
  assumes "0 < x" and "x < 2 powi 49" and "of_int m / 16 \<le> x"
  shows "of_int m / 16 \<le> fl x"
proof -
  define u :: rat where "u = 2 powi (expo x - 52)"
  have upos: "0 < u" by (simp add: u_def)
  obtain N :: int where N: "(1::rat) / 16 = of_int N * u"
    using grid16 [OF assms(1,2)] by (auto simp: u_def)
  have mu: "of_int m / 16 = of_int (m * N) * u"
    using N by simp
  have "of_int (m * N) \<le> x / u"
    using assms(3) upos by (simp only: mu pos_le_divide_eq)
  then have "m * N \<le> rnd_even (x / u)" by (rule rnd_even_ge)
  then have "(of_int (m * N) :: rat) \<le> of_int (rnd_even (x / u))"
    by (simp only: of_int_le_iff)
  then have "of_int (m * N) * u \<le> of_int (rnd_even (x / u)) * u"
    using upos by (simp only: mult_le_cancel_right_pos)
  moreover have "fl x = of_int (rnd_even (x / u)) * u"
    using assms(1) by (simp add: fl_def u_def Let_def)
  ultimately show ?thesis by (simp only: mu)
qed

lemma fl_le:
  assumes "0 < x" and "x < 2 powi 49" and "x \<le> of_int m / 16"
  shows "fl x \<le> of_int m / 16"
proof -
  define u :: rat where "u = 2 powi (expo x - 52)"
  have upos: "0 < u" by (simp add: u_def)
  obtain N :: int where N: "(1::rat) / 16 = of_int N * u"
    using grid16 [OF assms(1,2)] by (auto simp: u_def)
  have mu: "of_int m / 16 = of_int (m * N) * u"
    using N by simp
  have "x / u \<le> of_int (m * N)"
    using assms(3) upos by (simp only: mu pos_divide_le_eq)
  then have "rnd_even (x / u) \<le> m * N" by (rule rnd_even_le)
  then have "(of_int (rnd_even (x / u)) :: rat) \<le> of_int (m * N)"
    by (simp only: of_int_le_iff)
  then have "of_int (rnd_even (x / u)) * u \<le> of_int (m * N) * u"
    using upos by (simp only: mult_le_cancel_right_pos)
  moreover have "fl x = of_int (rnd_even (x / u)) * u"
    using assms(1) by (simp add: fl_def u_def Let_def)
  ultimately show ?thesis by (simp only: mu)
qed

lemma fl_of_nat:
  assumes "n \<le> 100000"
  shows "fl (of_nat n) = of_nat n"
proof (cases "n = 0")
  case True
  then show ?thesis by (simp add: fl_def)
next
  case False
  have pos: "(0::rat) < of_nat n" using False by simp
  have "(of_nat n :: rat) \<le> of_nat 100000" using assms by (simp only: of_nat_le_iff)
  then have lt: "(of_nat n :: rat) < 2 powi 49" by simp
  have eq: "(of_nat n :: rat) = of_int (16 * int n) / 16" by simp
  have "of_int (16 * int n) / 16 \<le> fl (of_nat n)"
    by (rule fl_ge [OF pos lt]) simp
  moreover have "fl (of_nat n) \<le> of_int (16 * int n) / 16"
    by (rule fl_le [OF pos lt]) simp
  ultimately show ?thesis by simp
qed

lemma thresh_iff:
  assumes "n \<le> 100000"
  shows "thresh n \<le> of_nat k \<longleftrightarrow> 7 * n \<le> 10 * k"
proof (cases "n = 0")
  case True
  then show ?thesis by (simp add: thresh_def fl_def)
next
  case False
  define x :: rat where "x = of_nat n * (6305039478318694 / 2 ^ 53)"
  have t: "thresh n = fl x"
    by (simp only: thresh_def fl_of_nat [OF assms] keep_const x_def)
  have npos: "(0::rat) < of_nat n" using False by simp
  have "(of_nat n :: rat) \<le> of_nat 100000" using assms by (simp only: of_nat_le_iff)
  then have nle: "(of_nat n :: rat) \<le> 100000" by simp
  have pos: "0 < x" using npos by (simp add: x_def)
  have "x \<le> of_nat n" using npos by (simp add: x_def)
  then have lt: "x < 2 powi 49" using nle by simp
  show ?thesis
  proof
    assume "thresh n \<le> of_nat k"
    show "7 * n \<le> 10 * k"
    proof (rule ccontr)
      assume "\<not> 7 * n \<le> 10 * k"
      then have "10 * k + 1 \<le> 7 * n" by simp
      then have "(of_nat (10 * k + 1) :: rat) \<le> of_nat (7 * n)"
        by (simp only: of_nat_le_iff)
      then have a: "10 * (of_nat k :: rat) + 1 \<le> 7 * of_nat n" by simp
      have "of_int (16 * int k + 1) / 16 \<le> x"
        using a nle by (simp add: x_def field_simps)
      then have "of_int (16 * int k + 1) / 16 \<le> fl x"
        by (rule fl_ge [OF pos lt])
      then have "(of_nat k :: rat) < fl x" by (simp add: field_simps)
      with \<open>thresh n \<le> of_nat k\<close> t show False by simp
    qed
  next
    assume "7 * n \<le> 10 * k"
    then have "(of_nat (7 * n) :: rat) \<le> of_nat (10 * k)"
      by (simp only: of_nat_le_iff)
    then have a: "7 * (of_nat n :: rat) \<le> 10 * of_nat k" by simp
    have "x \<le> of_int (16 * int k) / 16"
      using a npos by (simp add: x_def field_simps)
    then have "fl x \<le> of_int (16 * int k) / 16"
      by (rule fl_le [OF pos lt])
    then show "thresh n \<le> of_nat k" using t by simp
  qed
qed

subsection \<open>Loading and pruning\<close>

lemma length_infer_column: "length (cells (infer_column L raw)) = length raw"
  by (simp add: infer_column_def)

lemma nrows_load: "nrows (load L f) = min (n_records f) 100000"
  by (simp add: load_def read_csv_def Let_def)

lemma cells_load:
  assumes "(name, c) \<in> set (cols (load L f))"
  shows "length (cells c) = nrows (load L f)"
proof -
  from assms obtain field where "c = infer_column L (map field [0..<min (n_records f) 100000])"
    by (auto simp: load_def read_csv_def Let_def)
  then show ?thesis by (simp add: length_infer_column nrows_load)
qed

lemma count_split: "count_na c + count_notna c = length (cells c)"
  unfolding count_na_def count_notna_def
  by (rule sum_length_filter_compl)

lemma nrows_prune: "nrows (prune d) = nrows d"
  by (simp add: prune_def dropna_thresh_def)

lemma cols_prune:
  assumes "nrows d \<le> 100000"
  shows "cols (prune d) = filter (\<lambda>(name, c). 7 * nrows d \<le> 10 * count_notna c) (cols d)"
  by (simp add: prune_def dropna_thresh_def thresh_iff [OF assms])

lemma load_sparse:
  "load lib0 file_sparse =
     \<lparr>nrows = 10,
      cols =
        [(''kept'', \<lparr>dtype = Numeric,
            cells = [Num 1, Num 2, NA, Num 4, Num 5, NA, Num 7, Num 8, NA, Num 10]\<rparr>),
         (''dropped'', \<lparr>dtype = Numeric,
            cells = [Num 1, NA, NA, Num 4, Num 5, NA, Num 7, Num 8, NA, Num 10]\<rparr>)]\<rparr>"
  by (simp add: load_def read_csv_def file_sparse_def infer_column_def is_na_def na_values_def
      lib0_def decimal_def text_col_def Let_def upt_rec)

text \<open>
  C1.  After the pruning of line 23, a column of the loaded frame is retained exactly when
  its count of non-missing values is at least 0.7 times the number of rows, that is, when
  not more than 30% of its values are missing (a column missing exactly 30% stays).  The
  retained columns are the loaded ones, in order and with all their rows.  The threshold
  is the binary64 product the script computes.
\<close>

theorem prune_retains:
  "nrows (prune (load L f)) = nrows (load L f) \<and>
   cols (prune (load L f)) =
     filter (\<lambda>(name, c). 7 * nrows (load L f) \<le> 10 * count_notna c) (cols (load L f)) \<and>
   (\<forall>(name, c) \<in> set (cols (load L f)).
      ((name, c) \<in> set (cols (prune (load L f)))) = (\<not> 3 * nrows (load L f) < 10 * count_na c))"
proof -
  have le: "nrows (load L f) \<le> 100000" by (simp add: nrows_load)
  have c: "cols (prune (load L f)) =
     filter (\<lambda>(name, c). 7 * nrows (load L f) \<le> 10 * count_notna c) (cols (load L f))"
    by (rule cols_prune [OF le])
  have "((name, c) \<in> set (cols (prune (load L f)))) = (\<not> 3 * nrows (load L f) < 10 * count_na c)"
    if "(name, c) \<in> set (cols (load L f))" for name c
  proof -
    have "count_na c + count_notna c = nrows (load L f)"
      using cells_load [OF that] by (simp add: count_split)
    then show ?thesis using that by (auto simp: c)
  qed
  then show ?thesis using c by (auto simp: nrows_prune)
qed

theorem prune_retains_witness:
  "(''kept'', \<lparr>dtype = Numeric,
      cells = [Num 1, Num 2, NA, Num 4, Num 5, NA, Num 7, Num 8, NA, Num 10]\<rparr>)
     \<in> set (cols (load lib0 file_sparse)) \<and>
   10 * count_na \<lparr>dtype = Numeric,
      cells = [Num 1, Num 2, NA, Num 4, Num 5, NA, Num 7, Num 8, NA, Num 10]\<rparr>
     = 3 * nrows (load lib0 file_sparse) \<and>
   map fst (cols (prune (load lib0 file_sparse))) = [''kept''] \<and>
   nrows (prune (load lib0 file_sparse)) = 10"
  using prune_retains [of lib0 file_sparse]
  by (simp add: load_sparse count_na_def count_notna_def)

subsection \<open>Frames\<close>

lemma has_col_map_of: "has_col d name \<longleftrightarrow> map_of (cols d) name \<noteq> None"
  by (simp add: has_col_def map_of_eq_None_iff)

lemma get_col_present: "has_col d name \<Longrightarrow> \<exists>c. get_col d name = Inr c"
  by (auto simp: has_col_map_of get_col_def)

lemma get_col_absent: "\<not> has_col d name \<Longrightarrow> get_col d name = Inl (KeyError name)"
  by (simp add: has_col_map_of get_col_def)

lemma get_col_Inr_has: "get_col d name = Inr c \<Longrightarrow> has_col d name"
  by (auto simp: has_col_map_of get_col_def split: option.splits)

lemma get_col_Inl: "get_col d name = Inl e \<Longrightarrow> e = KeyError name \<and> \<not> has_col d name"
  by (auto simp: has_col_map_of get_col_def split: option.splits)

lemma nrows_set_col [simp]: "nrows (set_col d name c) = nrows d"
  by (simp add: set_col_def)

lemma get_col_set_col: "get_col (set_col d name c) other = (if other = name then Inr c else get_col d other)"
  by (simp add: set_col_def get_col_def update_conv')

lemma has_col_set_col: "has_col (set_col d name c) other \<longleftrightarrow> other = name \<or> has_col d other"
  by (auto simp: has_col_map_of set_col_def update_conv')

lemma names_set_col:
  "map fst (cols (set_col d name c)) =
     (if has_col d name then map fst (cols d) else map fst (cols d) @ [name])"
  by (simp add: set_col_def has_col_def update_keys)

lemma select_names: "select names d = Inr cs \<Longrightarrow> map fst cs = names"
  by (induction names arbitrary: cs) (auto split: sum.splits)

lemma select_present: "list_all (has_col d) names \<Longrightarrow> \<exists>cs. select names d = Inr cs"
proof (induction names)
  case Nil
  then show ?case by simp
next
  case (Cons name names)
  then obtain c cs where "get_col d name = Inr c" "select names d = Inr cs"
    using get_col_present [of d name] by auto
  then show ?case by simp
qed

lemma select_Inl: "select names d = Inl e \<Longrightarrow> \<exists>name \<in> set names. e = KeyError name \<and> \<not> has_col d name"
  by (induction names) (auto split: sum.splits dest: get_col_Inl)

lemma getitem_names: "getitem d names = Inr d' \<Longrightarrow> map fst (cols d') = names \<and> nrows d' = nrows d"
  by (auto simp: getitem_def split: sum.splits dest: select_names)

lemma getitem_present: "list_all (has_col d) names \<Longrightarrow> \<exists>d'. getitem d names = Inr d'"
  using select_present [of d names] by (auto simp: getitem_def)

lemma getitem_Inl: "getitem d names = Inl e \<Longrightarrow> \<exists>name \<in> set names. e = KeyError name \<and> \<not> has_col d name"
  by (auto simp: getitem_def split: sum.splits dest: select_Inl)

lemma seaborn_vars_present: "list_all (has_col d) names \<Longrightarrow> \<exists>cs. seaborn_vars names d = Inr cs"
  by (induction names) (auto simp: has_col_map_of)

lemma seaborn_vars_Inl:
  "seaborn_vars names d = Inl e \<Longrightarrow> \<exists>name \<in> set names. e = ValueError name \<and> \<not> has_col d name"
  by (induction names) (auto simp: has_col_map_of split: option.splits sum.splits)

lemma seaborn_vars_absent:
  "\<not> list_all (has_col d) names \<Longrightarrow> \<exists>e. seaborn_vars names d = Inl e"
  by (induction names) (auto simp: has_col_map_of split: option.splits sum.splits)

lemma seaborn_data_present: "list_all (has_col d) names \<Longrightarrow> \<exists>d'. seaborn_data d names = Inr d'"
  using seaborn_vars_present [of d names] by (auto simp: seaborn_data_def)

lemma seaborn_data_Inl:
  "seaborn_data d names = Inl e \<Longrightarrow> \<exists>name \<in> set names. e = ValueError name \<and> \<not> has_col d name"
  by (auto simp: seaborn_data_def split: sum.splits dest: seaborn_vars_Inl)

lemma seaborn_data_absent:
  "\<not> list_all (has_col d) names \<Longrightarrow> \<exists>e. seaborn_data d names = Inl e"
  using seaborn_vars_absent [of d names] by (auto simp: seaborn_data_def)

subsection \<open>Running a list of statements\<close>

lemma exec_append:
  "exec (xs @ ys) s =
     (case snd (exec xs s) of None \<Rightarrow> exec ys (fst (exec xs s)) | Some e \<Rightarrow> exec xs s)"
proof (induction xs arbitrary: s)
  case Nil
  then show ?case by simp
next
  case (Cons step xs)
  show ?case
  proof (cases "step s")
    case (Inl e)
    then show ?thesis by simp
  next
    case (Inr s')
    have l: "exec ((step # xs) @ ys) s = exec (xs @ ys) s'" using Inr by simp
    have r: "exec (step # xs) s = exec xs s'" using Inr by simp
    show ?thesis unfolding l r by (rule Cons.IH)
  qed
qed

lemma exec_invariant:
  assumes "\<forall>step \<in> set steps. \<forall>s s'. P s \<longrightarrow> step s = Inr s' \<longrightarrow> P s'"
    and "P s"
  shows "P (fst (exec steps s))"
  using assms
proof (induction steps arbitrary: s)
  case Nil
  then show ?case by simp
next
  case (Cons step steps)
  have hd: "\<forall>s s'. P s \<longrightarrow> step s = Inr s' \<longrightarrow> P s'"
    using Cons.prems(1) by (rule bspec) simp
  have tl: "\<forall>step \<in> set steps. \<forall>s s'. P s \<longrightarrow> step s = Inr s' \<longrightarrow> P s'"
  proof
    fix st
    assume "st \<in> set steps"
    then have "st \<in> set (step # steps)" by simp
    with Cons.prems(1) show "\<forall>s s'. P s \<longrightarrow> st s = Inr s' \<longrightarrow> P s'" by (rule bspec)
  qed
  show ?case
  proof (cases "step s")
    case (Inl e)
    then show ?thesis using Cons.prems(2) by simp
  next
    case (Inr s')
    have "P s'" by (rule hd [rule_format, OF Cons.prems(2) Inr])
    then have "P (fst (exec steps s'))" by (rule Cons.IH [OF tl])
    then show ?thesis using Inr by simp
  qed
qed

lemma exec_errors:
  assumes "\<forall>step \<in> set steps. \<forall>s s'. P s \<longrightarrow> step s = Inr s' \<longrightarrow> P s'"
    and "\<forall>step \<in> set steps. \<forall>s e. P s \<longrightarrow> step s = Inl e \<longrightarrow> E e"
    and "P s" and "snd (exec steps s) = Some e"
  shows "E e"
  using assms
proof (induction steps arbitrary: s)
  case Nil
  then show ?case by simp
next
  case (Cons step steps)
  have hd: "\<forall>s s'. P s \<longrightarrow> step s = Inr s' \<longrightarrow> P s'"
    using Cons.prems(1) by (rule bspec) simp
  have tl: "\<forall>step \<in> set steps. \<forall>s s'. P s \<longrightarrow> step s = Inr s' \<longrightarrow> P s'"
  proof
    fix st
    assume "st \<in> set steps"
    then have "st \<in> set (step # steps)" by simp
    with Cons.prems(1) show "\<forall>s s'. P s \<longrightarrow> st s = Inr s' \<longrightarrow> P s'" by (rule bspec)
  qed
  have hd_err: "\<forall>s e. P s \<longrightarrow> step s = Inl e \<longrightarrow> E e"
    using Cons.prems(2) by (rule bspec) simp
  have tl_err: "\<forall>step \<in> set steps. \<forall>s e. P s \<longrightarrow> step s = Inl e \<longrightarrow> E e"
  proof
    fix st
    assume "st \<in> set steps"
    then have "st \<in> set (step # steps)" by simp
    with Cons.prems(2) show "\<forall>s e. P s \<longrightarrow> st s = Inl e \<longrightarrow> E e" by (rule bspec)
  qed
  show ?case
  proof (cases "step s")
    case (Inl e')
    then have "e' = e" using Cons.prems(4) by simp
    then have "step s = Inl e" using Inl by simp
    then show ?thesis by (rule hd_err [rule_format, OF Cons.prems(3)])
  next
    case (Inr s')
    have p: "P s'" by (rule hd [rule_format, OF Cons.prems(3) Inr])
    have e: "snd (exec steps s') = Some e" using Cons.prems(4) Inr by simp
    show ?thesis by (rule Cons.IH [OF tl tl_err p e])
  qed
qed

lemma exec_figures:
  assumes "list_all2 (\<lambda>k step. \<forall>s s'. step s = Inr s' \<longrightarrow>
             shown s' = shown s \<or> (\<exists>d. shown s' = shown s @ [Fig k d])) ks steps"
  shows "\<exists>figs. shown (fst (exec steps s)) = shown s @ figs \<and> subseq (map fig_kind figs) ks"
  using assms
proof (induction ks steps arbitrary: s rule: list_all2_induct)
  case Nil
  then show ?case by simp
next
  case (Cons k ks step steps)
  show ?case
  proof (cases "step s")
    case (Inl e)
    then show ?thesis by simp
  next
    case (Inr s')
    obtain figs where figs: "shown (fst (exec steps s')) = shown s' @ figs"
        "subseq (map fig_kind figs) ks"
      using Cons.IH [of s'] by blast
    from Cons.hyps(1) Inr consider "shown s' = shown s" | d where "shown s' = shown s @ [Fig k d]"
      by blast
    then show ?thesis
    proof cases
      case 1
      then show ?thesis using figs Inr by auto
    next
      case 2
      then have "shown (fst (exec (step # steps) s)) = shown s @ (Fig k d # figs)"
        using figs Inr by simp
      moreover have "subseq (map fig_kind (Fig k d # figs)) (k # ks)"
        using figs(2) by simp
      ultimately show ?thesis by blast
    qed
  qed
qed

subsection \<open>Single statements\<close>

lemma plt_show_fields [simp]:
  "df (plt_show k d s) = df s"
  "df_num (plt_show k d s) = df_num s"
  "df_cat (plt_show k d s) = df_cat s"
  "shown (plt_show k d s) = shown s @ [Fig k d]"
  by (simp_all add: plt_show_def)

lemma plot_pandas_Inr:
  "plot_pandas k names s = Inr s' \<Longrightarrow> \<exists>d. getitem (df s) names = Inr d \<and> s' = plt_show k d s"
  by (auto simp: plot_pandas_def split: sum.splits)

lemma plot_pandas_present:
  "list_all (has_col (df s)) names \<Longrightarrow> \<exists>d. plot_pandas k names s = Inr (plt_show k d s)"
  using getitem_present [of "df s" names] by (auto simp: plot_pandas_def)

lemma plot_seaborn_Inr:
  "plot_seaborn k names s = Inr s' \<Longrightarrow> \<exists>d. seaborn_data (df s) names = Inr d \<and> s' = plt_show k d s"
  by (auto simp: plot_seaborn_def split: sum.splits)

lemma plot_seaborn_present:
  "list_all (has_col (df s)) names \<Longrightarrow> \<exists>d. plot_seaborn k names s = Inr (plt_show k d s)"
  using seaborn_data_present [of "df s" names] by (auto simp: plot_seaborn_def)

lemma coerce_step_Inr:
  "coerce_step L name s = Inr s' \<Longrightarrow>
     \<exists>c. get_col (df s) name = Inr c \<and> s' = s\<lparr>df := set_col (df s) name (to_numeric L c)\<rparr>"
  by (auto simp: coerce_step_def split: sum.splits)

lemma coerce_step_Inl:
  "coerce_step L name s = Inl e \<Longrightarrow> e = KeyError name \<and> \<not> has_col (df s) name"
  by (auto simp: coerce_step_def split: sum.splits dest: get_col_Inl)

lemma heatmap_step_eq: "heatmap_step s = Inr (plt_show Heatmap (df_num s) s)"
  by (simp add: heatmap_step_def)

lemma city_step_cases:
  "(\<not> has_col (df s) ''City'' \<and> city_step s = Inr s) \<or>
   (has_col (df s) ''City'' \<and> (\<exists>d. city_step s = Inr (plt_show CityBar d s)))"
  using plot_pandas_present [of s "[''City'']" CityBar] by (auto simp: city_step_def)

lemma severity_step_cases:
  "(\<not> has_col (df s) ''Severity'' \<and> severity_step s = Inr s) \<or>
   (has_col (df s) ''Severity'' \<and> (\<exists>d. severity_step s = Inr (plt_show SeverityPie d s)))"
  using plot_pandas_present [of s "[''Severity'']" SeverityPie] by (auto simp: severity_step_def)

lemma road_step_cases:
  "(\<not> has_col (df s) ''Road_Condition'' \<and> road_step s = Inr s) \<or>
   (has_col (df s) ''Road_Condition'' \<and> (\<exists>d. road_step s = Inr (plt_show RoadPie d s)))"
  using plot_pandas_present [of s "[''Road_Condition'']" RoadPie] by (auto simp: road_step_def)

lemma weather_step_cases:
  "(\<not> has_col (df s) ''Weather_Condition'' \<and> weather_step s = Inr s) \<or>
   (has_col (df s) ''Weather_Condition'' \<and>
      (\<exists>d. weather_step s = Inr (plt_show WeatherBar d s)))"
  using plot_pandas_present [of s "[''Weather_Condition'']" WeatherBar]
  by (auto simp: weather_step_def)

lemma box_step_cases:
  "(\<not> (has_col (df s) ''Severity'' \<and> has_col (df s) ''Temperature(F)'') \<and> box_step s = Inr s) \<or>
   (has_col (df s) ''Severity'' \<and> has_col (df s) ''Temperature(F)'' \<and>
      (\<exists>d. box_step s = Inr (plt_show TempBox d s)))"
  using plot_seaborn_present [of s "[''Severity'', ''Temperature(F)'']" TempBox]
  by (auto simp: box_step_def)

lemma violin_step_cases:
  "(\<not> (has_col (df s) ''Wind_Speed(mph)'' \<and> has_col (df s) ''Severity'') \<and> violin_step s = Inr s) \<or>
   (has_col (df s) ''Wind_Speed(mph)'' \<and> has_col (df s) ''Severity'' \<and>
      (\<exists>d. violin_step s = Inr (plt_show WindViolin d s)))"
  using plot_seaborn_present [of s "[''Severity'', ''Wind_Speed(mph)'']" WindViolin]
  by (auto simp: violin_step_def)

lemma scatter_step_Inr:
  "scatter_step s = Inr s' \<Longrightarrow> has_col (df s) ''State'' \<and> (\<exists>d. s' = plt_show LocationScatter d s)"
  by (auto simp: scatter_step_def split: sum.splits dest: get_col_Inr_has)

lemma scatter_step_absent:
  "\<not> has_col (df s) ''State'' \<Longrightarrow> \<exists>e. scatter_step s = Inl e"
  using seaborn_data_absent [of "df s" "[''Start_Lng'', ''Start_Lat'', ''State'']"]
  by (auto simp: scatter_step_def)

lemma scatter_step_Inl:
  assumes "scatter_step s = Inl e"
  shows "e \<in> {ValueError ''Start_Lng'', ValueError ''Start_Lat'', ValueError ''State''}"
proof (cases "seaborn_data (df s) [''Start_Lng'', ''Start_Lat'', ''State'']")
  case (Inl e')
  then have "e' = e" using assms by (simp add: scatter_step_def)
  then show ?thesis using seaborn_data_Inl [OF Inl] by auto
next
  case (Inr d)
  then have "has_col (df s) ''State''"
    using seaborn_data_absent [of "df s" "[''Start_Lng'', ''Start_Lat'', ''State'']"] by auto
  then obtain c where "get_col (df s) ''State'' = Inr c"
    using get_col_present by blast
  then show ?thesis using assms Inr by (simp add: scatter_step_def)
qed

lemma density_step_Inr:
  "density_step s = Inr s' \<Longrightarrow> \<exists>d. s' = plt_show TempDensity d s"
  by (auto simp: density_step_def split: sum.splits)

lemma density_step_Inl:
  "density_step s = Inl e \<Longrightarrow> e = KeyError ''Temperature(F)'' \<and> \<not> has_col (df s) ''Temperature(F)''"
  by (auto simp: density_step_def split: sum.splits dest: get_col_Inl)

lemma pairplot_step_Inr:
  "pairplot_step L entropy s = Inr s' \<Longrightarrow>
     \<exists>d. s' = plt_show Pairplot d s \<and> map fst (cols d) = map fst (cols (df_num s))"
  by (auto simp: pairplot_step_def split: sum.splits dest: getitem_names)

lemma dt_hour_to_datetime:
  "dt_hour (to_datetime L c) = Inr \<lparr>dtype = Numeric, cells = map hour_cell (cells (to_datetime L c))\<rparr>"
  by (simp add: dt_hour_def to_datetime_def)

lemma hours_step_present:
  assumes "get_col (df s) ''Start_Time'' = Inr c"
  shows "\<exists>d. hours_step L s =
     Inr (plt_show HoursHist d
       (s\<lparr>df := set_col (set_col (df s) ''Start_Time'' (to_datetime L c)) ''Hours''
          \<lparr>dtype = Numeric, cells = map hour_cell (cells (to_datetime L c))\<rparr>\<rparr>))"
proof -
  let ?h = "\<lparr>dtype = Numeric, cells = map hour_cell (cells (to_datetime L c))\<rparr>"
  let ?d1 = "set_col (df s) ''Start_Time'' (to_datetime L c)"
  let ?s1 = "s\<lparr>df := set_col ?d1 ''Hours'' ?h\<rparr>"
  have "has_col (df ?s1) ''Hours''" by (simp add: has_col_set_col)
  then obtain d where "plot_pandas HoursHist [''Hours''] ?s1 = Inr (plt_show HoursHist d ?s1)"
    using plot_pandas_present [of ?s1 "[''Hours'']" HoursHist] by auto
  then show ?thesis
    using assms by (auto simp: hours_step_def get_col_set_col dt_hour_to_datetime)
qed

lemma hours_step_Inl:
  "hours_step L s = Inl e \<Longrightarrow> e = KeyError ''Start_Time'' \<and> \<not> has_col (df s) ''Start_Time''"
proof (cases "get_col (df s) ''Start_Time''")
  case (Inl e')
  assume "hours_step L s = Inl e"
  then show ?thesis using Inl get_col_Inl [OF Inl] by (simp add: hours_step_def)
next
  case (Inr c)
  assume "hours_step L s = Inl e"
  then show ?thesis using hours_step_present [OF Inr, of L] by auto
qed

lemma hours_step_Inr:
  assumes "hours_step L s = Inr s'"
  shows "\<exists>c d. get_col (df s) ''Start_Time'' = Inr c \<and>
     s' = plt_show HoursHist d
       (s\<lparr>df := set_col (set_col (df s) ''Start_Time'' (to_datetime L c)) ''Hours''
          \<lparr>dtype = Numeric, cells = map hour_cell (cells (to_datetime L c))\<rparr>\<rparr>)"
proof (cases "get_col (df s) ''Start_Time''")
  case (Inl e)
  then show ?thesis using assms by (simp add: hours_step_def)
next
  case (Inr c)
  then show ?thesis using hours_step_present [OF Inr, of L] assms by auto
qed

end
